theory Spec2Isabelle
  imports Complex_Main
begin

section \<open>Data model of the mood log (backend.py, class MoodChatAI)\<close>

text \<open>
  The backend keeps the log in a pandas data frame \<^verbatim>\<open>self.df\<close> with the columns
  \<^verbatim>\<open>date, entry, mood, confidence, advice, alert_level\<close> and rewrites the file
  \<^verbatim>\<open>mood_log.csv\<close> after every append. The frame is modelled as the list of its
  rows, in index order.

  \<^item> A timestamp is an integer count of microseconds (the resolution of
    \<^verbatim>\<open>datetime.today()\<close>). A date cell that pandas holds as \<^verbatim>\<open>NaT\<close> is \<open>None\<close>;
    every comparison with it is false, as in pandas.
  \<^item> The text typed by the user is a Python \<^verbatim>\<open>str\<close>, a sequence of Unicode code
    points, so slicing and stripping count code points: it is a list of naturals.
    The fixed labels and message templates of the source are byte strings (their
    UTF-8 encoding where the source uses an emoji).
  \<^item> Python floats are modelled by exact rationals. The floats the source compares
    are quotients of two row counts, with each other or, times 100, with 70, 50 and
    30; as long as the counts stay far below \<open>2^50\<close> the correctly rounded doubles
    compare as the exact quotients do. Rounding to decimals (\<^verbatim>\<open>round\<close>) is modelled
    on the exact value.
\<close>

type_synonym timestamp = int
type_synonym unicode = "nat list"

text \<open>
  One row of the table. The type of the date cell is a parameter: in the data frame
  it is a timestamp or \<^verbatim>\<open>NaT\<close>, in the file it is text that pandas still has to parse.
\<close>

record 'd row =
  date :: 'd
  entry :: unicode
  mood :: string
  confidence :: rat
  advice :: string
  alert_level :: string

type_synonym mood_record = "timestamp option row"

text \<open>
  A date cell of the file, by what \<^verbatim>\<open>pd.to_datetime\<close> makes of it: a timestamp, \<^verbatim>\<open>NaT\<close>
  for an empty cell, or a parse failure.
\<close>

datatype date_cell = Parses "timestamp option" | Unparsable

type_synonym csv_row = "date_cell row"

text \<open>
  The durable file: absent, a table of rows, a table without a \<^verbatim>\<open>date\<close> column, or
  content that \<^verbatim>\<open>pd.read_csv\<close> rejects.
\<close>

datatype disk = Absent | Table "csv_row list" | NoDateColumn | Unreadable

text \<open>The exceptions that can leave the methods of the class.\<close>

datatype error =
    FileNotFoundError
  | ParserError
  | KeyError string
  | ValueError
  | TypeError
  | IndexError
  | OSError
  | ClassifierError

text \<open>The object: the in-memory frame \<^verbatim>\<open>self.df\<close> and the file at \<^verbatim>\<open>self.csv_file\<close>.\<close>

record state =
  frame :: "mood_record list"
  csv_file :: disk

text \<open>
  What the outside world does during one call: the two transformers pipelines
  (\<open>None\<close> when the call raises), the draw of \<^verbatim>\<open>random.choice\<close>, the clock, and
  whether writing the file fails (\<open>Some d\<close>: \<^verbatim>\<open>to_csv\<close> raises and leaves the file
  as \<open>d\<close>).
\<close>

record env =
  sentiment_analyzer :: "unicode \<Rightarrow> (string \<times> rat) option"
  emotion_analyzer :: "unicode \<Rightarrow> (string \<times> rat) option"
  random_draw :: nat
  today :: timestamp
  write_fault :: "disk option"

text \<open>
  A message returned by \<^verbatim>\<open>check_alert\<close>: either a fixed text, or the f-string
  \<^verbatim>\<open>f"{negative_percentage:.0f}% negative days detected."\<close>, kept with the value it
  formats (the digits are produced by float formatting, which is not modelled).
\<close>

datatype message = Plain string | NegativeDays rat

text \<open>The values stored in the statistics dictionary, and the dictionary in key order.\<close>

datatype py_value = IntV int | FloatV rat | StrV string

type_synonym stats = "(string \<times> py_value) list"

record report =
  timestamp :: timestamp
  statistics :: stats
  alert :: "bool \<times> string \<times> message"
  recommendation :: string

section \<open>Loading the log: the try block of __init__\<close>

definition read_csv :: "disk \<Rightarrow> error + csv_row list" where
  "read_csv d =
     (case d of
        Absent \<Rightarrow> Inl FileNotFoundError
      | Table rows \<Rightarrow> Inr rows
      | NoDateColumn \<Rightarrow> Inl (KeyError ''date'')
      | Unreadable \<Rightarrow> Inl ParserError)"

text \<open>\<^verbatim>\<open>pd.to_datetime\<close> of a column: it raises as soon as one cell does not parse.\<close>

fun to_datetime :: "date_cell list \<Rightarrow> error + timestamp option list" where
  "to_datetime [] = Inr []"
| "to_datetime (Unparsable # cs) = Inl ValueError"
| "to_datetime (Parses d # cs) =
     (case to_datetime cs of Inl e \<Rightarrow> Inl e | Inr ds \<Rightarrow> Inr (d # ds))"

definition set_date :: "'a row \<Rightarrow> 'b \<Rightarrow> 'b row" where
  "set_date r d =
     \<lparr>date = d, entry = entry r, mood = mood r, confidence = confidence r,
      advice = advice r, alert_level = alert_level r\<rparr>"

text \<open>
  Lines 26 to 32: \<^verbatim>\<open>read_csv\<close>, then the conversion of the date column, inside a
  \<^verbatim>\<open>try\<close> whose only handler is \<^verbatim>\<open>except FileNotFoundError\<close>, which starts an empty
  frame. Every other exception leaves the constructor.
\<close>

definition load :: "disk \<Rightarrow> error + mood_record list" where
  "load d =
     (case (case read_csv d of
              Inl e \<Rightarrow> Inl e
            | Inr rows \<Rightarrow>
                (case to_datetime (map date rows) of
                   Inl e \<Rightarrow> Inl e
                 | Inr ds \<Rightarrow> Inr (map2 set_date rows ds)))
      of Inl e \<Rightarrow> (if e = FileNotFoundError then Inr [] else Inl e)
       | Inr df \<Rightarrow> Inr df)"

text \<open>
  \<^verbatim>\<open>__init__\<close>: the two pipelines are built first (the flag says whether that
  succeeds), then the log is loaded. The file is only read.
\<close>

definition init :: "bool \<Rightarrow> disk \<Rightarrow> error + state" where
  "init pipelines_ok d =
     (if \<not> pipelines_ok then Inl ClassifierError
      else case load d of
             Inl e \<Rightarrow> Inl e
           | Inr df \<Rightarrow> Inr \<lparr>frame = df, csv_file = d\<rparr>)"

section \<open>Analysing and logging an entry\<close>

text \<open>
  \<^verbatim>\<open>str.isspace\<close> on one code point, the set \<^verbatim>\<open>str.strip()\<close> removes: the ASCII
  controls 9 to 13 and 28 to 31, the space, NEL, NBSP and the Unicode space separators
  and line and paragraph separators.
\<close>

definition py_isspace :: "nat \<Rightarrow> bool" where
  "py_isspace c \<longleftrightarrow>
     (9 \<le> c \<and> c \<le> 13) \<or> (28 \<le> c \<and> c \<le> 32) \<or> c = 133 \<or> c = 160 \<or> c = 5760 \<or>
     (8192 \<le> c \<and> c \<le> 8202) \<or> c = 8232 \<or> c = 8233 \<or> c = 8239 \<or> c = 8287 \<or>
     c = 12288"

definition py_strip :: "unicode \<Rightarrow> unicode" where
  "py_strip s = rev (dropWhile py_isspace (rev (dropWhile py_isspace s)))"

definition advice_map :: "(string \<times> string list) list" where
  "advice_map =
     [(''POSITIVE'',
        [''Amazing! Keep channeling this positive energy! '' @
           [CHR 0xF0, CHR 0x9F, CHR 0x8C, CHR 0x9F],
         ''Your optimism is contagious. Share it with others!'',
         ''Keep doing what you're doing. You're thriving!'']),
      (''NEGATIVE'',
        [''It's okay to feel down. Consider talking to someone. '' @
           [CHR 0xF0, CHR 0x9F, CHR 0x92, CHR 0x99],
         ''Take a 15-minute walk or practice deep breathing.'',
         ''Reach out to a friend or therapist. You're not alone.'',
         ''Try journaling or meditation to process these feelings.'']),
      (''NEUTRAL'',
        [''Keep journaling daily for better insights! '' @
           [CHR 0xF0, CHR 0x9F, CHR 0x93, CHR 0x9D],
         ''How can you make today a bit better?'',
         ''Your feelings matter. Keep tracking them.''])]"

text \<open>\<^verbatim>\<open>dict.get(key, default)\<close> on a dictionary kept in key order.\<close>

definition dict_get :: "('k \<times> 'v) list \<Rightarrow> 'k \<Rightarrow> 'v \<Rightarrow> 'v" where
  "dict_get d k dflt = (case map_of d k of None \<Rightarrow> dflt | Some v \<Rightarrow> v)"

text \<open>
  \<^verbatim>\<open>random.choice(seq)\<close> with the draw \<open>n\<close> supplied from outside; it raises
  \<^verbatim>\<open>IndexError\<close> on an empty sequence.
\<close>

definition random_choice :: "nat \<Rightarrow> 'a list \<Rightarrow> error + 'a" where
  "random_choice n xs = (if xs = [] then Inl IndexError else Inr (xs ! (n mod length xs)))"

text \<open>
  \<^verbatim>\<open>analyze_mood(self, entry)\<close>. The result of the first pipeline is not used, but
  the call is made and may raise.
\<close>

definition analyze_mood :: "env \<Rightarrow> unicode \<Rightarrow> error + (string option \<times> rat \<times> string)" where
  "analyze_mood e txt =
     (if py_strip txt = []
      then Inr (None, 0, ''Please enter your feelings to get started.'')
      else
        case sentiment_analyzer e (take 512 txt) of
          None \<Rightarrow> Inl ClassifierError
        | Some sentiment_result \<Rightarrow>
           (case emotion_analyzer e (take 512 txt) of
              None \<Rightarrow> Inl ClassifierError
            | Some (label, score) \<Rightarrow>
                let mood_label =
                      (if label = ''POSITIVE'' then ''POSITIVE''
                       else if label = ''NEGATIVE'' then ''NEGATIVE'' else ''NEUTRAL'')
                in (case random_choice (random_draw e)
                           (dict_get advice_map mood_label [''Stay mindful.'']) of
                      Inl err \<Rightarrow> Inl err
                    | Inr adv \<Rightarrow> Inr (Some mood_label, score, adv))))"

text \<open>
  \<^verbatim>\<open>self.df.to_csv(self.csv_file, index=False)\<close>: the whole frame replaces the
  file, unless the write fails.
\<close>

definition to_csv :: "env \<Rightarrow> mood_record list \<Rightarrow> (error + unit) \<times> disk" where
  "to_csv e df =
     (case write_fault e of
        None \<Rightarrow> (Inr (), Table (map (\<lambda>r. set_date r (Parses (date r))) df))
      | Some d \<Rightarrow> (Inl OSError, d))"

text \<open>
  \<^verbatim>\<open>log_mood(self, entry)\<close>. The frame is assigned before the file is written, so
  an exception of \<^verbatim>\<open>to_csv\<close> leaves the method with the new frame in place.
\<close>

definition log_mood ::
  "env \<Rightarrow> state \<Rightarrow> unicode \<Rightarrow> (error + (string option \<times> rat \<times> string)) \<times> state" where
  "log_mood e s txt =
     (case analyze_mood e txt of
        Inl err \<Rightarrow> (Inl err, s)
      | Inr (None, conf, adv) \<Rightarrow> (Inr (None, 0, adv), s)
      | Inr (Some mood_label, conf, adv) \<Rightarrow>
          let new_entry =
                \<lparr>date = Some (today e), entry = take 200 txt, mood = mood_label,
                 confidence = conf, advice = adv, alert_level = ''LOW''\<rparr>;
              df = frame s @ [new_entry]
          in (case to_csv e df of
                (Inl err, d) \<Rightarrow> (Inl err, \<lparr>frame = df, csv_file = d\<rparr>)
              | (Inr u, d) \<Rightarrow>
                  (Inr (Some mood_label, conf, adv), \<lparr>frame = df, csv_file = d\<rparr>)))"

section \<open>Alert engine: check_alert\<close>

text \<open>\<^verbatim>\<open>timedelta(days=n)\<close> in microseconds.\<close>

definition timedelta_days :: "int \<Rightarrow> int" where
  "timedelta_days n = n * 86400 * 1000000"

text \<open>\<^verbatim>\<open>self.df['date'] >= t\<close>, row by row.\<close>

definition date_ge :: "timestamp option \<Rightarrow> timestamp \<Rightarrow> bool" where
  "date_ge d t = (case d of None \<Rightarrow> False | Some u \<Rightarrow> t \<le> u)"

text \<open>\<^verbatim>\<open>sum(frame['mood'] == label)\<close>.\<close>

definition count_mood :: "string \<Rightarrow> mood_record list \<Rightarrow> nat" where
  "count_mood label rows = length (filter (\<lambda>r. mood r = label) rows)"

text \<open>
  \<^verbatim>\<open>check_alert(self)\<close>, with the value of \<^verbatim>\<open>datetime.today()\<close> as the argument
  \<open>now\<close>. It returns the triple (triggered, severity, message).
\<close>

definition check_alert :: "timestamp \<Rightarrow> mood_record list \<Rightarrow> bool \<times> string \<times> message" where
  "check_alert now df =
     (if length df < 7 then (False, ''LOW'', Plain ''Not enough data yet.'')
      else
        let fourteen_days_ago = now - timedelta_days 14;
            recent_df = filter (\<lambda>r. date_ge (date r) fourteen_days_ago) df
        in if length recent_df < 7
           then (False, ''LOW'', Plain ''Not enough data for 2-week analysis.'')
           else
             let negative_count = count_mood ''NEGATIVE'' recent_df;
                 total_count = length recent_df;
                 negative_percentage = (rat_of_nat negative_count / rat_of_nat total_count) * 100
             in if negative_percentage \<ge> 70
                  then (True, ''CRITICAL'', NegativeDays negative_percentage)
                else if negative_percentage \<ge> 50
                  then (True, ''HIGH'', NegativeDays negative_percentage)
                else if negative_percentage \<ge> 30
                  then (True, ''MEDIUM'', NegativeDays negative_percentage)
                else (False, ''LOW'', Plain ''Mood is stable.''))"

section \<open>Statistics engine: get_mood_stats\<close>

text \<open>
  \<^verbatim>\<open>Series.value_counts()\<close>: the number of occurrences of every value that occurs,
  looked up with \<^verbatim>\<open>.get(label, 0)\<close>.
\<close>

fun value_counts :: "'a list \<Rightarrow> ('a \<rightharpoonup> nat)" where
  "value_counts [] = Map.empty"
| "value_counts (x # xs) =
     (let m = value_counts xs
      in m(x \<mapsto> (case m x of None \<Rightarrow> 1 | Some c \<Rightarrow> Suc c)))"

definition series_get :: "('a \<rightharpoonup> nat) \<Rightarrow> 'a \<Rightarrow> nat \<Rightarrow> nat" where
  "series_get m k dflt = (case m k of None \<Rightarrow> dflt | Some v \<Rightarrow> v)"

text \<open>\<^verbatim>\<open>df.tail(n)\<close>: the last \<open>n\<close> rows, all of them when there are fewer.\<close>

definition tail :: "nat \<Rightarrow> 'a list \<Rightarrow> 'a list" where
  "tail n xs = drop (length xs - n) xs"

text \<open>\<^verbatim>\<open>df.iloc[:-n]\<close>: all rows but the last \<open>n\<close>, none when there are at most \<open>n\<close>.\<close>

definition iloc_upto_neg :: "nat \<Rightarrow> 'a list \<Rightarrow> 'a list" where
  "iloc_upto_neg n xs = take (length xs - n) xs"

text \<open>
  \<^verbatim>\<open>round(x, ndigits)\<close> on exact values: to the nearest multiple of \<open>10^-ndigits\<close>,
  a tie going to the even one.
\<close>

definition py_round :: "rat \<Rightarrow> nat \<Rightarrow> rat" where
  "py_round x ndigits =
     (let scaled = x * 10 ^ ndigits;
          lower = \<lfloor>scaled\<rfloor>;
          part = scaled - of_int lower;
          nearest = (if part < 1 / 2 then lower
                     else if part > 1 / 2 then lower + 1
                     else if even lower then lower else lower + 1)
      in of_int nearest / 10 ^ ndigits)"

text \<open>\<^verbatim>\<open>Series.mean()\<close> of a non-empty column.\<close>

definition mean :: "rat list \<Rightarrow> rat" where
  "mean xs = sum_list xs / rat_of_nat (length xs)"

definition trend_improving :: string where
  "trend_improving = ''Improving '' @ [CHR 0xF0, CHR 0x9F, CHR 0x93, CHR 0x88]"

definition trend_declining :: string where
  "trend_declining = ''Declining '' @ [CHR 0xF0, CHR 0x9F, CHR 0x93, CHR 0x89]"

definition trend_stable :: string where
  "trend_stable = ''Stable '' @ [CHR 0xE2, CHR 0x9E, CHR 0xA1, CHR 0xEF, CHR 0xB8, CHR 0x8F]"

text \<open>Lines 147 to 159, the block under \<^verbatim>\<open># Calculate trend\<close>.\<close>

definition calculate_trend :: "mood_record list \<Rightarrow> string" where
  "calculate_trend df =
     (if length df \<ge> 2 then
        let recent = value_counts (map mood (tail 7 df));
            past = value_counts (map mood (iloc_upto_neg 7 df));
            recent_positive =
              rat_of_nat (series_get recent ''POSITIVE'' 0) / rat_of_nat (length (tail 7 df));
            past_positive =
              (if length (iloc_upto_neg 7 df) > 0
               then rat_of_nat (series_get past ''POSITIVE'' 0)
                      / rat_of_nat (length (iloc_upto_neg 7 df))
               else 0)
        in if recent_positive > past_positive then trend_improving
           else if recent_positive < past_positive then trend_declining
           else trend_stable
      else ''Not enough data'')"

text \<open>
  \<^verbatim>\<open>get_mood_stats(self)\<close>. The dictionary returned for the empty frame has five
  keys, the one returned otherwise has seven.
\<close>

definition get_mood_stats :: "mood_record list \<Rightarrow> stats" where
  "get_mood_stats df =
     (if length df = 0 then
        [(''total_entries'', IntV 0),
         (''positive_days'', IntV 0),
         (''negative_days'', IntV 0),
         (''neutral_days'', IntV 0),
         (''trend'', StrV ''No data'')]
      else
        let total = length df;
            positive = count_mood ''POSITIVE'' df;
            negative = count_mood ''NEGATIVE'' df;
            neutral = count_mood ''NEUTRAL'' df;
            trend = calculate_trend df
        in [(''total_entries'', IntV (int total)),
            (''positive_days'', IntV (int positive)),
            (''negative_days'', IntV (int negative)),
            (''neutral_days'', IntV (int neutral)),
            (''positive_percentage'',
               if total > 0
               then FloatV (py_round ((rat_of_nat positive / rat_of_nat total) * 100) 1)
               else IntV 0),
            (''trend'', StrV trend),
            (''avg_confidence'',
               if length df > 0 then FloatV (py_round (mean (map confidence df)) 3)
               else IntV 0)])"

section \<open>History, recommendation and report\<close>

text \<open>
  \<^verbatim>\<open>get_mood_history(self, days)\<close>: the rows dated within the last \<open>days\<close> days,
  sorted by date (rows of equal date keep their order here, which pandas does not
  promise). Rows without a date never pass the filter.
\<close>

definition get_mood_history :: "timestamp \<Rightarrow> int \<Rightarrow> mood_record list \<Rightarrow> mood_record list" where
  "get_mood_history now days df =
     (let cutoff = now - timedelta_days days
      in sort_key (\<lambda>r. case date r of None \<Rightarrow> 0 | Some t \<Rightarrow> t)
           (filter (\<lambda>r. date_ge (date r) cutoff) df))"

text \<open>\<^verbatim>\<open>stats[key]\<close> read as a number; a missing key raises \<^verbatim>\<open>KeyError\<close>.\<close>

definition stats_number :: "stats \<Rightarrow> string \<Rightarrow> error + rat" where
  "stats_number st k =
     (case map_of st k of
        None \<Rightarrow> Inl (KeyError k)
      | Some (IntV i) \<Rightarrow> Inr (of_int i)
      | Some (FloatV q) \<Rightarrow> Inr q
      | Some (StrV v) \<Rightarrow> Inl TypeError)"

definition keep_logging :: string where
  "keep_logging = ''Keep logging your mood daily to get personalized insights!''"

definition great_work :: string where
  "great_work = ''Great work! Maintain your current positive momentum! '' @
     [CHR 0xF0, CHR 0x9F, CHR 0x8E, CHR 0x89]"

definition reach_out :: string where
  "reach_out =
     ''Consider reaching out to a mental health professional. Your wellbeing matters! '' @
     [CHR 0xF0, CHR 0x9F, CHR 0x92, CHR 0x99]"

definition balanced :: string where
  "balanced = ''Your mood is balanced. Keep tracking and stay mindful!''"

text \<open>\<^verbatim>\<open>_get_recommendation(self, stats)\<close>.\<close>

definition get_recommendation :: "stats \<Rightarrow> error + string" where
  "get_recommendation st =
     (case stats_number st ''total_entries'' of
        Inl err \<Rightarrow> Inl err
      | Inr total_entries \<Rightarrow>
          if total_entries < 7 then Inr keep_logging
          else
            (case stats_number st ''positive_percentage'' of
               Inl err \<Rightarrow> Inl err
             | Inr positive_percentage \<Rightarrow>
                 if positive_percentage \<ge> 70 then Inr great_work
                 else if positive_percentage \<le> 30 then Inr reach_out
                 else Inr balanced))"

text \<open>
  \<^verbatim>\<open>export_report(self)\<close>. The clock is read twice, by \<^verbatim>\<open>check_alert\<close> and for
  the time stamp of the report.
\<close>

definition export_report :: "timestamp \<Rightarrow> timestamp \<Rightarrow> mood_record list \<Rightarrow> error + report" where
  "export_report now_alert now_report df =
     (let st = get_mood_stats df;
          triple = check_alert now_alert df
      in case get_recommendation st of
           Inl err \<Rightarrow> Inl err
         | Inr rec \<Rightarrow>
             Inr \<lparr>timestamp = now_report, statistics = st, alert = triple,
                  recommendation = rec\<rparr>)"

section \<open>Sessions: sequences of calls on one object\<close>

text \<open>
  The public methods. Only \<^verbatim>\<open>log_mood\<close> assigns \<^verbatim>\<open>self.df\<close> or writes the file;
  the other four read the frame and return a value.
\<close>

datatype operation =
    LogMood env unicode
  | CheckAlert timestamp
  | GetMoodStats
  | GetMoodHistory timestamp int
  | ExportReport timestamp timestamp

fun step :: "state \<Rightarrow> operation \<Rightarrow> state" where
  "step s (LogMood e txt) = snd (log_mood e s txt)"
| "step s (CheckAlert now) = s"
| "step s GetMoodStats = s"
| "step s (GetMoodHistory now days) = s"
| "step s (ExportReport now_alert now_report) = s"

definition run :: "state \<Rightarrow> operation list \<Rightarrow> state" where
  "run s ops = foldl step s ops"

section \<open>The trend as the specification words it\<close>

text \<open>
  The specification's trend algorithm, for comparison with \<open>calculate_trend\<close>: the
  fraction of POSITIVE records of a partition, 0 for an empty one; recent is the last
  7 records, past is everything before them.
\<close>

definition spec_positive_fraction :: "mood_record list \<Rightarrow> rat" where
  "spec_positive_fraction part =
     (if part = [] then 0
      else rat_of_nat (length [r \<leftarrow> part. mood r = ''POSITIVE'']) / rat_of_nat (length part))"

definition spec_trend :: "mood_record list \<Rightarrow> string" where
  "spec_trend df =
     (if length df < 2 then ''Not enough data''
      else
        let recent = rev (take 7 (rev df));
            past = rev (drop 7 (rev df))
        in if spec_positive_fraction recent > spec_positive_fraction past then trend_improving
           else if spec_positive_fraction recent < spec_positive_fraction past
             then trend_declining
           else trend_stable)"

section \<open>Concrete logs and environments\<close>

text \<open>A sample row for concrete logs: logged at time \<open>t\<close> with label \<open>m\<close>.\<close>

definition sample_row :: "timestamp \<Rightarrow> string \<Rightarrow> mood_record" where
  "sample_row t m =
     \<lparr>date = Some t, entry = [104, 105], mood = m, confidence = 9 / 10,
      advice = ''Stay mindful.'', alert_level = ''LOW''\<rparr>"

text \<open>Ten rows logged at time \<open>t\<close>: \<open>k\<close> NEGATIVE ones, then POSITIVE ones.\<close>

definition ten_rows :: "timestamp \<Rightarrow> nat \<Rightarrow> mood_record list" where
  "ten_rows t k =
     replicate k (sample_row t ''NEGATIVE'') @ replicate (10 - k) (sample_row t ''POSITIVE'')"

text \<open>A log of ten records: three NEGATIVE, then four POSITIVE, then three NEUTRAL.\<close>

definition trend_log :: "mood_record list" where
  "trend_log =
     replicate 3 (sample_row 1 ''NEGATIVE'') @ replicate 4 (sample_row 2 ''POSITIVE'')
       @ replicate 3 (sample_row 3 ''NEUTRAL'')"

text \<open>A statistics dictionary with the two keys the recommendation reads.\<close>

definition stats_of :: "int \<Rightarrow> rat \<Rightarrow> stats" where
  "stats_of n p = [(''total_entries'', IntV n), (''positive_percentage'', FloatV p)]"

text \<open>
  An environment in which both pipelines answer: the second one labels a text that
  starts with a colon NEGATIVE (0.9) and everything else \<^verbatim>\<open>LABEL_1\<close> (0.75). The
  argument says whether writing the file fails.
\<close>

definition sample_env :: "disk option \<Rightarrow> env" where
  "sample_env fault =
     \<lparr>sentiment_analyzer = (\<lambda>t. Some (''POSITIVE'', 99 / 100)),
      emotion_analyzer =
        (\<lambda>t. if hd t = 58 then Some (''NEGATIVE'', 9 / 10) else Some (''LABEL_1'', 3 / 4)),
      random_draw = 5, today = 1000, write_fault = fault\<rparr>"

text \<open>A fresh object without a file, and an entry of 300 letters.\<close>

definition empty_state :: state where
  "empty_state = \<lparr>frame = [], csv_file = Absent\<rparr>"

definition long_text :: unicode where
  "long_text = replicate 300 97"

text \<open>A row of the file whose date does not parse.\<close>

definition bad_row :: csv_row where
  "bad_row = set_date (sample_row 0 ''POSITIVE'') Unparsable"

text \<open>
  An object holding seven NEGATIVE records whose stored alert level is HIGH, and a
  session on it: one entry logged, one blank entry refused, the read-only methods in
  between.
\<close>

definition critical_state :: state where
  "critical_state =
     \<lparr>frame = replicate 7 (set_date (sample_row 5 ''NEGATIVE'') (Some 5)\<lparr>alert_level := ''HIGH''\<rparr>),
      csv_file = Absent\<rparr>"

definition session :: "operation list" where
  "session = [LogMood (sample_env None) [58, 40], CheckAlert 1000, GetMoodStats,
              ExportReport 1000 1001, LogMood (sample_env None) [32, 32],
              GetMoodHistory 1002 30]"

section \<open>Properties of the alert engine\<close>

lemma date_ge_iff: "date_ge d t \<longleftrightarrow> (\<exists>u. d = Some u \<and> t \<le> u)"
  by (cases d) (simp_all add: date_ge_def)

lemma sample_row_sel:
  "date (sample_row t m) = Some t" "mood (sample_row t m) = m"
  by (simp_all add: sample_row_def)

text \<open>
  Claim C5. A log of fewer than 7 records gives (False, LOW, "Not enough data yet.")
  whatever its labels are; a log of at least 7 records of which fewer than 7 are dated
  within the 14 days before now gives (False, LOW, "Not enough data for 2-week
  analysis."). Neither result depends on any label, so no threshold is evaluated.
\<close>

theorem check_alert_insufficient:
  "(length df < 7 \<longrightarrow>
      check_alert now df = (False, ''LOW'', Plain ''Not enough data yet.'')) \<and>
   (7 \<le> length df \<and>
    length [r \<leftarrow> df. \<exists>t. date r = Some t \<and> now - 14 * 86400 * 1000000 \<le> t] < 7 \<longrightarrow>
      check_alert now df = (False, ''LOW'', Plain ''Not enough data for 2-week analysis.''))"
  by (simp add: check_alert_def Let_def date_ge_iff timedelta_days_def)

theorem check_alert_insufficient_witness:
  "length (replicate 5 (sample_row 0 ''NEGATIVE'')) < 7 \<and>
   check_alert 0 (replicate 5 (sample_row 0 ''NEGATIVE''))
     = (False, ''LOW'', Plain ''Not enough data yet.'') \<and>
   7 \<le> length (replicate 8 (sample_row 0 ''NEGATIVE'')) \<and>
   length [r \<leftarrow> replicate 8 (sample_row 0 ''NEGATIVE'').
             \<exists>t. date r = Some t \<and> 1209600000001 - 14 * 86400 * 1000000 \<le> t] < 7 \<and>
   check_alert 1209600000001 (replicate 8 (sample_row 0 ''NEGATIVE''))
     = (False, ''LOW'', Plain ''Not enough data for 2-week analysis.'')"
proof -
  have short: "length (replicate 5 (sample_row 0 ''NEGATIVE'')) < 7"
    by simp
  have long: "7 \<le> length (replicate 8 (sample_row 0 ''NEGATIVE''))"
    by simp
  have old: "length [r \<leftarrow> replicate 8 (sample_row 0 ''NEGATIVE'').
             \<exists>t. date r = Some t \<and> 1209600000001 - 14 * 86400 * 1000000 \<le> t] < 7"
    by (simp add: sample_row_sel)
  from check_alert_insufficient [of "replicate 5 (sample_row 0 ''NEGATIVE'')" 0] short
  have a: "check_alert 0 (replicate 5 (sample_row 0 ''NEGATIVE''))
     = (False, ''LOW'', Plain ''Not enough data yet.'')"
    by blast
  from check_alert_insufficient [of "replicate 8 (sample_row 0 ''NEGATIVE'')" 1209600000001]
    long old
  have b: "check_alert 1209600000001 (replicate 8 (sample_row 0 ''NEGATIVE''))
     = (False, ''LOW'', Plain ''Not enough data for 2-week analysis.'')"
    by blast
  from short long old a b show ?thesis by blast
qed

text \<open>
  Claim C1. Let the log hold at least 7 records and let its window, the records dated
  no earlier than 14 days before now, hold at least 7 records. With
  p = 100 * (NEGATIVE records in the window) / (size of the window), check_alert
  returns (True, CRITICAL) when p >= 70, else (True, HIGH) when p >= 50, else
  (True, MEDIUM) when p >= 30, each with the message that reports p, and otherwise
  (False, LOW, "Mood is stable."). The instance below runs it on windows of 10 records
  with 7, 5, 3 and 2 NEGATIVE ones.
\<close>

theorem check_alert_tiers:
  assumes "7 \<le> length df"
    and "w = [r \<leftarrow> df. \<exists>t. date r = Some t \<and> now - 14 * 86400 * 1000000 \<le> t]"
    and "7 \<le> length w"
    and "p = 100 * rat_of_nat (length [r \<leftarrow> w. mood r = ''NEGATIVE'']) / rat_of_nat (length w)"
  shows "check_alert now df =
     (if 70 \<le> p then (True, ''CRITICAL'', NegativeDays p)
      else if 50 \<le> p then (True, ''HIGH'', NegativeDays p)
      else if 30 \<le> p then (True, ''MEDIUM'', NegativeDays p)
      else (False, ''LOW'', Plain ''Mood is stable.''))"
proof -
  have win: "filter (\<lambda>r. date_ge (date r) (now - timedelta_days 14)) df = w"
    using assms(2) by (simp add: date_ge_iff timedelta_days_def)
  have pct: "(rat_of_nat (count_mood ''NEGATIVE'' w) / rat_of_nat (length w)) * 100 = p"
    using assms(4) by (simp add: count_mood_def)
  from assms(1) assms(3) show ?thesis
    unfolding check_alert_def Let_def win pct by simp
qed

theorem check_alert_tiers_witness:
  "length (ten_rows 5 7) = 10 \<and>
   check_alert 9 (ten_rows 5 7) = (True, ''CRITICAL'', NegativeDays 70) \<and>
   check_alert 9 (ten_rows 5 5) = (True, ''HIGH'', NegativeDays 50) \<and>
   check_alert 9 (ten_rows 5 3) = (True, ''MEDIUM'', NegativeDays 30) \<and>
   check_alert 9 (ten_rows 5 2) = (False, ''LOW'', Plain ''Mood is stable.'')"
proof -
  have len: "\<And>k. 7 \<le> length (ten_rows 5 k)"
    by (simp add: ten_rows_def)
  have win: "\<And>k. ten_rows 5 k =
      [r \<leftarrow> ten_rows 5 k. \<exists>t. date r = Some t \<and> 9 - 14 * 86400 * 1000000 \<le> t]"
    by (simp add: ten_rows_def sample_row_sel)
  have neg: "\<And>k. k \<le> 10 \<Longrightarrow> rat_of_nat k * 10 =
      100 * rat_of_nat (length [r \<leftarrow> ten_rows 5 k. mood r = ''NEGATIVE''])
        / rat_of_nat (length (ten_rows 5 k))"
    by (simp add: ten_rows_def sample_row_sel)
  have tier: "\<And>k. k \<le> 10 \<Longrightarrow> check_alert 9 (ten_rows 5 k) =
     (if 70 \<le> rat_of_nat k * 10 then (True, ''CRITICAL'', NegativeDays (rat_of_nat k * 10))
      else if 50 \<le> rat_of_nat k * 10 then (True, ''HIGH'', NegativeDays (rat_of_nat k * 10))
      else if 30 \<le> rat_of_nat k * 10 then (True, ''MEDIUM'', NegativeDays (rat_of_nat k * 10))
      else (False, ''LOW'', Plain ''Mood is stable.''))"
    by (rule check_alert_tiers [OF len win len neg])
  have ten: "length (ten_rows 5 7) = 10"
    by (simp add: ten_rows_def)
  show ?thesis
    using ten tier [of 7] tier [of 5] tier [of 3] tier [of 2] by simp
qed

section \<open>Properties of the statistics engine\<close>

lemma value_counts_mood:
  "series_get (value_counts (map mood rows)) k 0 = count_mood k rows"
  by (induction rows) (auto simp: series_get_def count_mood_def Let_def split: option.splits)

lemma tail_rev: "tail n xs = rev (take n (rev xs))"
  by (simp add: tail_def take_rev)

lemma iloc_upto_neg_rev: "iloc_upto_neg n xs = rev (drop n (rev xs))"
  by (simp add: iloc_upto_neg_def drop_rev)

lemma tail_nonempty: "xs \<noteq> [] \<Longrightarrow> 0 < n \<Longrightarrow> tail n xs \<noteq> []"
  by (cases xs) (auto simp: tail_def)

lemma sample_row_mood_eq: "mood (sample_row t m) = k \<longleftrightarrow> m = k"
  by (simp add: sample_row_def)

text \<open>The four trend texts are pairwise different, and so are the four recommendations.\<close>

lemma trend_distinct:
  "trend_improving \<noteq> trend_declining" "trend_improving \<noteq> trend_stable"
  "trend_declining \<noteq> trend_stable" "trend_improving \<noteq> ''Not enough data''"
  "trend_declining \<noteq> ''Not enough data''" "trend_stable \<noteq> ''Not enough data''"
  by (simp_all add: trend_improving_def trend_declining_def trend_stable_def)

lemma recommendation_distinct:
  "great_work \<noteq> reach_out" "great_work \<noteq> balanced" "reach_out \<noteq> balanced"
  "keep_logging \<noteq> great_work" "keep_logging \<noteq> reach_out" "keep_logging \<noteq> balanced"
  by (simp_all add: great_work_def reach_out_def balanced_def keep_logging_def)

text \<open>
  The source counts through \<^verbatim>\<open>value_counts\<close> and divides by the partition's length;
  this is the specification's comparison of POSITIVE fractions.
\<close>

lemma calculate_trend_spec: "calculate_trend df = spec_trend df"
proof (cases "2 \<le> length df")
  case False
  then show ?thesis by (simp add: calculate_trend_def spec_trend_def)
next
  case True
  then have ne: "df \<noteq> []" by auto
  have r: "rat_of_nat (series_get (value_counts (map mood (tail 7 df))) ''POSITIVE'' 0)
             / rat_of_nat (length (tail 7 df)) = spec_positive_fraction (rev (take 7 (rev df)))"
    using tail_nonempty [OF ne, of 7]
    by (simp add: value_counts_mood count_mood_def spec_positive_fraction_def tail_rev)
  have p: "(if length (iloc_upto_neg 7 df) > 0
               then rat_of_nat (series_get (value_counts (map mood (iloc_upto_neg 7 df))) ''POSITIVE'' 0)
                      / rat_of_nat (length (iloc_upto_neg 7 df))
               else 0) = spec_positive_fraction (rev (drop 7 (rev df)))"
    by (simp add: value_counts_mood count_mood_def spec_positive_fraction_def iloc_upto_neg_rev)
  from True show ?thesis
    unfolding calculate_trend_def spec_trend_def Let_def r p by simp
qed

text \<open>
  Claim C4. For a log of at least 2 records the trend entry of get_mood_stats compares
  the POSITIVE fraction of the last 7 records with that of all records before them
  (0 when there are none): greater gives "Improving", smaller "Declining", equal
  "Stable". For a log of exactly 1 record the trend is "Not enough data".
\<close>

theorem get_mood_stats_trend:
  assumes "1 \<le> length df"
  shows "map_of (get_mood_stats df) ''trend'' = Some (StrV (spec_trend df))"
proof -
  from assms have "df \<noteq> []" by auto
  then show ?thesis
    by (simp add: get_mood_stats_def Let_def calculate_trend_spec)
qed

theorem get_mood_stats_trend_witness:
  "1 \<le> length trend_log \<and>
   map_of (get_mood_stats trend_log) ''trend'' = Some (StrV trend_improving) \<and>
   1 \<le> length [sample_row 1 ''POSITIVE''] \<and>
   map_of (get_mood_stats [sample_row 1 ''POSITIVE'']) ''trend'' = Some (StrV ''Not enough data'')"
proof -
  have l10: "1 \<le> length trend_log"
    by (simp add: trend_log_def)
  have l1: "1 \<le> length [sample_row 1 ''POSITIVE'']"
    by simp
  have recent: "rev (take 7 (rev trend_log)) =
      replicate 4 (sample_row 2 ''POSITIVE'') @ replicate 3 (sample_row 3 ''NEUTRAL'')"
    by (simp add: trend_log_def)
  have past: "rev (drop 7 (rev trend_log)) = replicate 3 (sample_row 1 ''NEGATIVE'')"
    by (simp add: trend_log_def)
  have fr: "spec_positive_fraction (rev (take 7 (rev trend_log))) = 4 / 7"
    unfolding recent by (simp add: spec_positive_fraction_def sample_row_mood_eq)
  have fp: "spec_positive_fraction (rev (drop 7 (rev trend_log))) = 0"
    unfolding past by (simp add: spec_positive_fraction_def sample_row_mood_eq)
  have t10: "spec_trend trend_log = trend_improving"
    unfolding spec_trend_def Let_def fr fp by (simp add: trend_log_def)
  have t1: "spec_trend [sample_row 1 ''POSITIVE''] = ''Not enough data''"
    by (simp add: spec_trend_def)
  show ?thesis
    using l10 l1 get_mood_stats_trend [OF l10] get_mood_stats_trend [OF l1]
    by (simp add: t10 t1)
qed

text \<open>
  Claim C3, evaluated on the code. On the empty log get_mood_stats returns the five
  entries total_entries = 0, positive_days = 0, negative_days = 0, neutral_days = 0
  and trend = "No data"; the key positive_percentage is absent from that dictionary,
  so reading it raises KeyError.
\<close>

theorem get_mood_stats_empty:
  "get_mood_stats [] =
     [(''total_entries'', IntV 0), (''positive_days'', IntV 0), (''negative_days'', IntV 0),
      (''neutral_days'', IntV 0), (''trend'', StrV ''No data'')] \<and>
   map_of (get_mood_stats []) ''positive_percentage'' = None \<and>
   stats_number (get_mood_stats []) ''positive_percentage''
     = Inl (KeyError ''positive_percentage'')"
  by (simp add: get_mood_stats_def stats_number_def)

text \<open>On every other log the key is present, and holds a float.\<close>

lemma get_mood_stats_nonempty_percentage:
  "df \<noteq> [] \<Longrightarrow> \<exists>q. map_of (get_mood_stats df) ''positive_percentage'' = Some (FloatV q)"
  by (simp add: get_mood_stats_def Let_def)

section \<open>Properties of the recommendation\<close>

text \<open>
  Claim C9. For a statistics value with total_entries = n and positive_percentage = p
  the recommendation is, first match wins: the keep-logging prompt when n < 7, else
  the congratulation when p >= 70, else the professional-help suggestion when p <= 30,
  else the balanced text. The instance below has n = 10 with p = 75, 20 and 50.
\<close>

theorem get_recommendation_rule:
  assumes "map_of st ''total_entries'' = Some (IntV n)"
    and "map_of st ''positive_percentage'' = Some (FloatV p)"
  shows "get_recommendation st =
     Inr (if n < 7 then keep_logging
          else if p \<ge> 70 then great_work
          else if p \<le> 30 then reach_out
          else balanced)"
  using assms by (simp add: get_recommendation_def stats_number_def)

theorem get_recommendation_rule_witness:
  "get_recommendation (stats_of 10 75) = Inr great_work \<and>
   get_recommendation (stats_of 10 20) = Inr reach_out \<and>
   get_recommendation (stats_of 10 50) = Inr balanced \<and>
   get_recommendation (stats_of 5 75) = Inr keep_logging"
proof -
  have te: "\<And>n p. map_of (stats_of n p) ''total_entries'' = Some (IntV n)"
    by (simp add: stats_of_def)
  have pp: "\<And>n p. map_of (stats_of n p) ''positive_percentage'' = Some (FloatV p)"
    by (simp add: stats_of_def)
  show ?thesis
    using get_recommendation_rule [OF te pp, of 10 75]
      get_recommendation_rule [OF te pp, of 10 20]
      get_recommendation_rule [OF te pp, of 10 50]
      get_recommendation_rule [OF te pp, of 5 75]
    by simp
qed

text \<open>
  The dictionaries built by get_mood_stats never make the recommendation raise, so
  export_report always returns a report.
\<close>

lemma get_recommendation_of_stats: "\<exists>msg. get_recommendation (get_mood_stats df) = Inr msg"
  by (cases df) (simp_all add: get_recommendation_def get_mood_stats_def stats_number_def Let_def)

lemma export_report_returns: "\<exists>rep. export_report now_alert now_report df = Inr rep"
proof -
  from get_recommendation_of_stats [of df] obtain msg
    where "get_recommendation (get_mood_stats df) = Inr msg" by blast
  then show ?thesis
    by (simp add: export_report_def Let_def)
qed

section \<open>Properties of loading\<close>

lemma to_datetime_unparsable: "Unparsable \<in> set cs \<Longrightarrow> to_datetime cs = Inl ValueError"
  by (induction cs rule: to_datetime.induct) (auto split: sum.splits)

lemma to_datetime_parses: "to_datetime (map Parses ds) = Inr ds"
  by (induction ds) auto

lemma set_date_same: "set_date (set_date r c) (date r) = (r :: mood_record)"
  by (simp add: set_date_def)

lemma map2_set_date:
  "map2 set_date (map (\<lambda>r. set_date r (Parses (date r))) df) (map date df)
     = (df :: mood_record list)"
  by (induction df) (simp_all add: set_date_same)

text \<open>What a successful write leaves in the file loads back as the same frame.\<close>

lemma load_after_write:
  "write_fault e = None \<Longrightarrow> load (snd (to_csv e df)) = Inr df"
proof -
  assume "write_fault e = None"
  moreover have "map date (map (\<lambda>r. set_date r (Parses (date r))) df) = map Parses (map date df)"
    by (simp add: set_date_def)
  ultimately show ?thesis
    by (simp add: to_csv_def load_def read_csv_def to_datetime_parses map2_set_date del: map_map)
qed

text \<open>
  Claim C8. Loading when the file is missing gives the empty log and no error. Loading
  a file that exists and has a date cell that cannot be parsed raises (ValueError leaves
  the constructor); it does not give the empty log. The two cases are told apart.
\<close>

theorem load_missing_or_malformed:
  "load Absent = Inr [] \<and>
   init True Absent = Inr \<lparr>frame = [], csv_file = Absent\<rparr> \<and>
   ((\<exists>r \<in> set rows. date r = Unparsable) \<longrightarrow>
      load (Table rows) = Inl ValueError \<and> init True (Table rows) = Inl ValueError)"
proof -
  have "load (Table rows) = Inl ValueError" if "\<exists>r \<in> set rows. date r = Unparsable"
  proof -
    from that have "Unparsable \<in> set (map date rows)"
      by force
    then have "to_datetime (map date rows) = Inl ValueError"
      by (rule to_datetime_unparsable)
    then show ?thesis
      by (simp add: load_def read_csv_def)
  qed
  moreover have "load Absent = Inr []"
    by (simp add: load_def read_csv_def)
  ultimately show ?thesis
    by (simp add: init_def)
qed

theorem load_missing_or_malformed_witness:
  "(\<exists>r \<in> set [bad_row]. date r = Unparsable) \<and>
   load (Table [bad_row]) = Inl ValueError \<and> init True (Table [bad_row]) = Inl ValueError \<and>
   load Absent = Inr []"
  using load_missing_or_malformed [of "[bad_row]"]
  by (simp add: bad_row_def set_date_def)

section \<open>Properties of logging\<close>

lemma py_strip_empty_iff: "py_strip txt = [] \<longleftrightarrow> (\<forall>c \<in> set txt. py_isspace c)"
proof
  assume "py_strip txt = []"
  then have a: "\<forall>c \<in> set (dropWhile py_isspace txt). py_isspace c"
    by (simp add: py_strip_def dropWhile_eq_Nil_conv)
  have "dropWhile py_isspace txt = []"
  proof (rule ccontr)
    assume ne: "dropWhile py_isspace txt \<noteq> []"
    then have "\<not> py_isspace (hd (dropWhile py_isspace txt))"
      by (rule hd_dropWhile)
    moreover from ne have "hd (dropWhile py_isspace txt) \<in> set (dropWhile py_isspace txt)"
      by (rule hd_in_set)
    ultimately show False using a by blast
  qed
  then show "\<forall>c \<in> set txt. py_isspace c"
    by (simp add: dropWhile_eq_Nil_conv)
next
  assume "\<forall>c \<in> set txt. py_isspace c"
  then have d: "dropWhile py_isspace txt = []"
    by (simp add: dropWhile_eq_Nil_conv)
  show "py_strip txt = []"
    unfolding py_strip_def d by simp
qed

lemma analyze_mood_blank:
  "py_strip txt = [] \<Longrightarrow>
     analyze_mood e txt = Inr (None, 0, ''Please enter your feelings to get started.'')"
  by (simp add: analyze_mood_def)

lemma sample_env_sel:
  "sentiment_analyzer (sample_env f) t = Some (''POSITIVE'', 99 / 100)"
  "emotion_analyzer (sample_env f) t =
     (if hd t = 58 then Some (''NEGATIVE'', 9 / 10) else Some (''LABEL_1'', 3 / 4))"
  "random_draw (sample_env f) = 5" "today (sample_env f) = 1000"
  "write_fault (sample_env f) = f"
  by (simp_all add: sample_env_def)

lemma long_text_strip: "py_strip long_text \<noteq> []"
  by (simp add: py_strip_empty_iff long_text_def py_isspace_def)

lemma long_text_label:
  "emotion_analyzer (sample_env f) (take 512 long_text) = Some (''LABEL_1'', 3 / 4)"
  by (simp add: sample_env_sel long_text_def)

text \<open>
  Claim C7. For an entry that is empty or consists of whitespace only, log_mood returns
  the value (None, 0, "Please enter your feelings to get started.") instead of raising,
  and leaves the in-memory log and the file as they were: nothing is appended, nothing
  is written.
\<close>

theorem log_mood_blank:
  assumes "\<forall>c \<in> set txt. py_isspace c"
  shows "log_mood e s txt = (Inr (None, 0, ''Please enter your feelings to get started.''), s)"
proof -
  from assms have "py_strip txt = []"
    by (simp add: py_strip_empty_iff)
  then show ?thesis
    by (simp add: log_mood_def analyze_mood_blank)
qed

theorem log_mood_blank_witness:
  "py_strip [32, 9, 10, 160] = [] \<and>
   log_mood (sample_env None) empty_state [32, 9, 10, 160]
     = (Inr (None, 0, ''Please enter your feelings to get started.''), empty_state) \<and>
   log_mood (sample_env (Some Unreadable)) critical_state []
     = (Inr (None, 0, ''Please enter your feelings to get started.''), critical_state)"
proof -
  have ws: "\<forall>c \<in> set [32, 9, 10, 160]. py_isspace c"
    by (simp add: py_isspace_def)
  have em: "\<forall>c \<in> set ([] :: unicode). py_isspace c"
    by simp
  from ws have "py_strip [32, 9, 10, 160] = []"
    by (simp only: py_strip_empty_iff)
  then show ?thesis
    using log_mood_blank [OF ws] log_mood_blank [OF em] by simp
qed

lemma advice_list_nonempty:
  "dict_get advice_map (if label = ''POSITIVE'' then ''POSITIVE''
        else if label = ''NEGATIVE'' then ''NEGATIVE'' else ''NEUTRAL'') [''Stay mindful.''] \<noteq> []"
  by (simp add: dict_get_def advice_map_def)

lemma analyze_mood_classified:
  assumes "py_strip txt \<noteq> []"
    and "sentiment_analyzer e (take 512 txt) = Some sr"
    and "emotion_analyzer e (take 512 txt) = Some (label, score)"
  shows "\<exists>m adv. analyze_mood e txt = Inr (Some m, score, adv) \<and>
           m = (if label = ''POSITIVE'' then ''POSITIVE''
        else if label = ''NEGATIVE'' then ''NEGATIVE'' else ''NEUTRAL'')"
  using assms advice_list_nonempty [of label]
  by (simp add: analyze_mood_def random_choice_def Let_def)

lemma log_mood_appends:
  assumes "analyze_mood e txt = Inr (Some m, score, adv)"
  shows "frame (snd (log_mood e s txt)) =
           frame s @ [\<lparr>date = Some (today e), entry = take 200 txt, mood = m,
                       confidence = score, advice = adv, alert_level = ''LOW''\<rparr>]"
    and "write_fault e = Some d \<Longrightarrow> fst (log_mood e s txt) = Inl OSError"
    and "write_fault e = Some d \<Longrightarrow> csv_file (snd (log_mood e s txt)) = d"
    and "write_fault e = None \<Longrightarrow> fst (log_mood e s txt) = Inr (Some m, score, adv)"
  using assms
  by (simp_all add: log_mood_def to_csv_def Let_def split: option.splits)

text \<open>
  Claim C6. For an entry that is not empty after stripping, which both pipelines
  classify, the second with a score in [0,1], log_mood appends exactly one record to
  the log and leaves the earlier records as they were; the record's mood is POSITIVE,
  NEGATIVE or NEUTRAL, its confidence is the score and lies in [0,1], and its entry is
  the first 200 code points of the input.
\<close>

theorem log_mood_appends_one:
  assumes "py_strip txt \<noteq> []"
    and "sentiment_analyzer e (take 512 txt) = Some sr"
    and "emotion_analyzer e (take 512 txt) = Some (label, score)"
    and "0 \<le> score \<and> score \<le> 1"
  shows "\<exists>r. frame (snd (log_mood e s txt)) = frame s @ [r] \<and>
             mood r \<in> {''POSITIVE'', ''NEGATIVE'', ''NEUTRAL''} \<and>
             confidence r = score \<and> 0 \<le> confidence r \<and> confidence r \<le> 1 \<and>
             entry r = take 200 txt \<and> length (entry r) \<le> 200"
proof -
  from analyze_mood_classified [OF assms(1-3)] obtain m adv
    where a: "analyze_mood e txt = Inr (Some m, score, adv)"
      and m: "m = (if label = ''POSITIVE'' then ''POSITIVE''
        else if label = ''NEGATIVE'' then ''NEGATIVE'' else ''NEUTRAL'')"
    by blast
  from m have "m \<in> {''POSITIVE'', ''NEGATIVE'', ''NEUTRAL''}"
    by simp
  with log_mood_appends(1) [OF a, of s] assms(4) show ?thesis
    by simp
qed

theorem log_mood_appends_one_witness:
  "py_strip long_text \<noteq> [] \<and>
   (\<exists>r. frame (snd (log_mood (sample_env None) critical_state long_text))
           = frame critical_state @ [r] \<and>
        mood r \<in> {''POSITIVE'', ''NEGATIVE'', ''NEUTRAL''} \<and>
        confidence r = 3 / 4 \<and> 0 \<le> confidence r \<and> confidence r \<le> 1 \<and>
        entry r = take 200 long_text \<and> length (entry r) \<le> 200)"
proof -
  have range: "(0::rat) \<le> 3 / 4 \<and> (3::rat) / 4 \<le> 1"
    by simp
  show ?thesis
    using long_text_strip
      log_mood_appends_one [OF long_text_strip sample_env_sel(1) [of None]
        long_text_label [of None] range, where s = critical_state]
    by simp
qed

text \<open>
  Claim C2, as the code has it. When writing the file fails during an append, log_mood
  reports the failure (the OSError of to_csv leaves it), the in-memory log is not
  rolled back: it holds the records it had followed by the new record, and the file is
  whatever the failed write left.
\<close>

theorem log_mood_persist_failure:
  assumes "py_strip txt \<noteq> []"
    and "sentiment_analyzer e (take 512 txt) = Some sr"
    and "emotion_analyzer e (take 512 txt) = Some (label, score)"
    and "write_fault e = Some d"
  shows "fst (log_mood e s txt) = Inl OSError \<and>
         (\<exists>r. frame (snd (log_mood e s txt)) = frame s @ [r]) \<and>
         csv_file (snd (log_mood e s txt)) = d"
proof -
  from analyze_mood_classified [OF assms(1-3)] obtain m adv
    where a: "analyze_mood e txt = Inr (Some m, score, adv)"
    by blast
  show ?thesis
    using log_mood_appends(1) [OF a, of s] log_mood_appends(2,3) [OF a assms(4), of s]
    by simp
qed

theorem log_mood_persist_failure_witness:
  "write_fault (sample_env (Some Unreadable)) = Some Unreadable \<and>
   fst (log_mood (sample_env (Some Unreadable)) critical_state long_text) = Inl OSError \<and>
   (\<exists>r. frame (snd (log_mood (sample_env (Some Unreadable)) critical_state long_text))
           = frame critical_state @ [r]) \<and>
   csv_file (snd (log_mood (sample_env (Some Unreadable)) critical_state long_text)) = Unreadable"
  using log_mood_persist_failure [OF long_text_strip sample_env_sel(1) [of "Some Unreadable"]
      long_text_label [of "Some Unreadable"] sample_env_sel(5) [of "Some Unreadable"],
      where s = critical_state]
  by (simp add: sample_env_sel)

text \<open>
  Claim C2 as stated fails. On a fresh object without a file, a failing write that
  leaves the file absent makes log_mood raise OSError, and the in-memory log then holds
  a record although the file holds none: the log is not at its content before the
  append.
\<close>

theorem log_mood_persist_failure_counterexample:
  "fst (log_mood (sample_env (Some Absent)) empty_state [104, 105]) = Inl OSError \<and>
   csv_file (snd (log_mood (sample_env (Some Absent)) empty_state [104, 105])) = csv_file empty_state \<and>
   frame (snd (log_mood (sample_env (Some Absent)) empty_state [104, 105])) \<noteq> frame empty_state"
  by (simp add: log_mood_def analyze_mood_def sample_env_def empty_state_def py_strip_def py_isspace_def
      random_choice_def dict_get_def advice_map_def to_csv_def Let_def)

section \<open>Properties of sessions\<close>

lemma log_mood_frame:
  "\<exists>new. frame (snd (log_mood e s txt)) = frame s @ new \<and> (\<forall>r \<in> set new. alert_level r = ''LOW'')"
  by (auto simp: log_mood_def Let_def split: sum.splits option.splits prod.splits)

lemma step_frame:
  "\<exists>new. frame (step s op) = frame s @ new \<and> (\<forall>r \<in> set new. alert_level r = ''LOW'')"
  using log_mood_frame by (cases op) auto

lemma run_frame:
  "\<exists>new. frame (run s ops) = frame s @ new \<and> (\<forall>r \<in> set new. alert_level r = ''LOW'')"
proof (induction ops arbitrary: s)
  case Nil
  then show ?case by (simp add: run_def)
next
  case (Cons op ops)
  from step_frame [of s op] obtain n1
    where n1: "frame (step s op) = frame s @ n1" "\<forall>r \<in> set n1. alert_level r = ''LOW''"
    by blast
  from Cons.IH [of "step s op"] obtain n2
    where n2: "frame (run (step s op) ops) = frame (step s op) @ n2"
      "\<forall>r \<in> set n2. alert_level r = ''LOW''"
    by blast
  have "run s (op # ops) = run (step s op) ops"
    by (simp add: run_def)
  with n1 n2 have "frame (run s (op # ops)) = frame s @ (n1 @ n2) \<and>
      (\<forall>r \<in> set (n1 @ n2). alert_level r = ''LOW'')"
    by auto
  then show ?case by blast
qed

lemma analyze_sample:
  "analyze_mood (sample_env f) [58, 40] =
     Inr (Some ''NEGATIVE'', 9 / 10, ''Take a 15-minute walk or practice deep breathing.'')"
  by (simp add: analyze_mood_def sample_env_sel py_strip_def py_isspace_def
      random_choice_def dict_get_def advice_map_def)

lemma session_frame:
  "frame (run critical_state session) =
     frame critical_state @
       [\<lparr>date = Some 1000, entry = [58, 40], mood = ''NEGATIVE'', confidence = 9 / 10,
         advice = ''Take a 15-minute walk or practice deep breathing.'',
         alert_level = ''LOW''\<rparr>]"
proof -
  have blank: "\<forall>c \<in> set [32, 32]. py_isspace c"
    by (simp add: py_isspace_def)
  have b: "\<And>s. snd (log_mood (sample_env None) s [32, 32]) = s"
    by (simp add: log_mood_def analyze_mood_blank py_strip_empty_iff blank)
  show ?thesis
    using log_mood_appends(1) [OF analyze_sample, of None critical_state]
    by (simp add: run_def session_def b sample_env_sel)
qed

lemma session_alert: "check_alert 1000 (frame (run critical_state session))
   = (True, ''CRITICAL'', NegativeDays 100)"
  unfolding session_frame
  by (simp add: critical_state_def check_alert_def date_ge_def timedelta_days_def
      count_mood_def set_date_def sample_row_def)

text \<open>
  Claim C10. Whatever calls are made on an object, the records it held before are still
  there, unchanged and in place, so no stored alert_level is ever updated; and every
  record appended since has alert_level "LOW". The instance below appends to a log
  whose alert is CRITICAL.
\<close>

theorem alert_level_always_low:
  "take (length (frame s)) (frame (run s ops)) = frame s \<and>
   (\<forall>r \<in> set (drop (length (frame s)) (frame (run s ops))). alert_level r = ''LOW'')"
proof -
  from run_frame [of s ops] obtain new
    where "frame (run s ops) = frame s @ new" "\<forall>r \<in> set new. alert_level r = ''LOW''"
    by blast
  then show ?thesis by simp
qed

theorem alert_level_always_low_witness:
  "length (frame critical_state) = 7 \<and>
   length (frame (run critical_state session)) = 8 \<and>
   take 7 (frame (run critical_state session)) = frame critical_state \<and>
   map alert_level (drop 7 (frame (run critical_state session))) = [''LOW''] \<and>
   fst (snd (check_alert 1000 (frame (run critical_state session)))) = ''CRITICAL''"
proof -
  have l7: "length (frame critical_state) = 7"
    by (simp add: critical_state_def)
  have l8: "length (frame (run critical_state session)) = 8"
    unfolding session_frame by (simp add: l7)
  have r: "drop 7 (frame (run critical_state session)) =
       [\<lparr>date = Some 1000, entry = [58, 40], mood = ''NEGATIVE'', confidence = 9 / 10,
         advice = ''Take a 15-minute walk or practice deep breathing.'',
         alert_level = ''LOW''\<rparr>]"
    unfolding session_frame by (simp add: l7)
  show ?thesis
    using alert_level_always_low [of critical_state session] l7 l8
    by (simp add: session_alert r)
qed

end
